theory Spec2Isabelle
  imports Main
begin

section \<open>Data model of the Google Drive connector activities\<close>

text \<open>
  The activities of the Google Drive connector (\<open>syncFiles\<close>, \<open>incrementalSync\<close>,
  \<open>garbageCollector\<close>, \<open>renewWebhooks\<close>, \<open>deleteOneFile\<close>, \<open>deleteFile\<close>) are
  asynchronous TypeScript functions over a relational store and a remote API. They are
  embedded as state transformers over a record \<open>world\<close> holding the tables they touch,
  the downstream index and a trace of the calls they issue. An exception is a value
  \<open>Inl e\<close>; the world reached when it was raised is returned with it, since effects
  that happened before a throw persist.
\<close>

type_synonym model_id = nat
type_synonym timestamp = int
type_synonym oauth = string

datatype error =
    GaxiosError "nat option" string
  | ExternalOauthTokenError
  | HTTPError string
  | Error string

datatype 'a result = Ok 'a | Err error

record connector =
  c_id :: model_id
  connectionId :: string
  workspaceId :: string
  dataSourceName :: string

record data_source_config =
  ds_workspaceId :: string
  ds_dataSourceName :: string

text \<open>\<open>drive_v3.Schema$File\<close>: what the remote API returns; every field is optional.\<close>

record schema_file =
  sf_id :: "string option"
  sf_name :: "string option"
  sf_mimeType :: "string option"
  sf_createdTime :: "string option"
  sf_trashed :: "bool option"

text \<open>\<open>GoogleDriveObjectType\<close>: the canonical file or folder representation.\<close>

record drive_object =
  o_id :: string
  o_name :: string
  o_parent :: "string option"
  o_mimeType :: string
  o_trashed :: bool

text \<open>A row of \<open>GoogleDriveFiles\<close>, unique on \<open>(connectorId, driveFileId)\<close>.\<close>

record gdfile =
  connectorId :: model_id
  dustFileId :: string
  driveFileId :: string
  f_name :: string
  mimeType :: string
  parentId :: "string option"
  lastSeenTs :: "timestamp option"

text \<open>A row of \<open>GoogleDriveWebhook\<close>; \<open>wh_id\<close> is its primary key.\<close>

record webhook =
  wh_id :: nat
  wh_connectorId :: model_id
  wh_driveId :: string
  expiresAt :: timestamp
  renewAt :: timestamp
  renewedByWebhookId :: "string option"

record change =
  changeType :: "string option"
  ch_file :: "schema_file option"

record changes_response =
  cr_status :: nat
  cr_changes :: "change list option"
  cr_nextPageToken :: "string option"
  cr_newStartPageToken :: "string option"

record files_response =
  fl_status :: nat
  fl_files :: "schema_file list option"
  fl_nextPageToken :: "string option"

record start_token_response =
  st_status :: nat
  st_startPageToken :: "string option"

record sync_result =
  r_nextPageToken :: "string option"
  r_count :: nat
  r_subfolders :: "string list"

text \<open>
  The trace records, in order, every call to the remote source (\<open>GetObject\<close>,
  \<open>FilesList\<close>, \<open>ChangesList\<close>, \<open>GetStartPageToken\<close>), to the downstream indexing
  service and to the collaborators that push or remove content, and the error logs.
\<close>

datatype event =
    GetObject string
  | FilesList string "string option"
  | ChangesList "string option"
  | GetStartPageToken
  | SyncOneFile string
  | DeleteFromDataSource data_source_config string
  | DeleteSpreadsheet model_id string
  | EnsureWebhook model_id string
  | Heartbeat
  | LogError string

record world =
  connectors :: "connector list"
  configs :: "model_id \<rightharpoonup> bool"
  files :: "gdfile list"
  folders :: "(model_id \<times> string) list"
  tokens :: "(model_id \<times> string) \<rightharpoonup> string"
  webhooks :: "webhook list"
  syncStatus :: "model_id \<rightharpoonup> string"
  docs :: "(data_source_config \<times> string) set"
  trace :: "event list"

text \<open>
  The collaborators that the activities import from modules outside the sources at hand
  are parameters, collected in \<open>env\<close>. Each may raise. \<open>syncOneFile\<close> may change the
  mirror table and the index and nothing else; \<open>ensureWebhookForDriveId\<close> reads the
  webhook table and returns the rows it created with its result.
  \<open>now\<close> is the reading of the clock (\<open>new Date()\<close>, SQL \<open>NOW()\<close>), taken as constant
  during one activity.
\<close>

record env =
  now :: timestamp
  GOOGLE_DRIVE_WEBHOOK_RENEW_MARGIN_MS :: int
  getAuthObject :: "string \<Rightarrow> error + oauth"
  getDriveClient :: "error + unit"
  getGoogleDriveObject :: "oauth \<Rightarrow> string \<Rightarrow> error + drive_object option"
  getMimeTypesToSync :: "bool \<Rightarrow> string list"
  getDocumentId :: "string \<Rightarrow> string"
  driveObjectToDustType :: "schema_file \<Rightarrow> oauth \<Rightarrow> error + drive_object"
  getFileParentsMemoized ::
    "model_id \<Rightarrow> oauth \<Rightarrow> drive_object \<Rightarrow> timestamp \<Rightarrow> error + drive_object list"
  filesList :: "string \<Rightarrow> string list \<Rightarrow> string option \<Rightarrow> error + files_response"
  changesList :: "string \<Rightarrow> bool \<Rightarrow> string \<Rightarrow> error + changes_response"
  getStartPageToken :: "bool \<Rightarrow> string \<Rightarrow> error + start_token_response"
  syncOneFile ::
    "model_id \<Rightarrow> oauth \<Rightarrow> data_source_config \<Rightarrow> drive_object \<Rightarrow> timestamp \<Rightarrow> bool
      \<Rightarrow> gdfile list \<times> (data_source_config \<times> string) set
      \<Rightarrow> (error + bool) \<times> gdfile list \<times> (data_source_config \<times> string) set"
  isGoogleDriveSpreadSheetFile :: "gdfile \<Rightarrow> bool"
  deleteSpreadsheet :: "connector \<Rightarrow> gdfile \<Rightarrow> error + unit"
  dataSourceDeleteError :: "data_source_config \<Rightarrow> string \<Rightarrow> error option"
  ensureWebhookForDriveId ::
    "connector \<Rightarrow> string \<Rightarrow> int \<Rightarrow> webhook list
      \<Rightarrow> error + (string option result \<times> webhook list)"

section \<open>Actions: state passing with exceptions\<close>

type_synonym 'a act = "world \<Rightarrow> (error + 'a) \<times> world"

definition ret :: "'a \<Rightarrow> 'a act" where
  "ret x = (\<lambda>w. (Inr x, w))"

definition throw :: "error \<Rightarrow> 'a act" where
  "throw e = (\<lambda>w. (Inl e, w))"

definition bnd :: "'a act \<Rightarrow> ('a \<Rightarrow> 'b act) \<Rightarrow> 'b act" where
  "bnd m f = (\<lambda>w. case m w of (r, w') \<Rightarrow> (case r of Inl e \<Rightarrow> (Inl e, w') | Inr x \<Rightarrow> f x w'))"

definition catch :: "'a act \<Rightarrow> (error \<Rightarrow> 'a act) \<Rightarrow> 'a act" where
  "catch m h = (\<lambda>w. case m w of (r, w') \<Rightarrow> (case r of Inl e \<Rightarrow> h e w' | Inr x \<Rightarrow> (Inr x, w')))"

definition lift :: "error + 'a \<Rightarrow> 'a act" where
  "lift r = (\<lambda>w. (r, w))"

definition gets :: "(world \<Rightarrow> 'a) \<Rightarrow> 'a act" where
  "gets f = (\<lambda>w. (Inr (f w), w))"

definition modify :: "(world \<Rightarrow> world) \<Rightarrow> unit act" where
  "modify f = (\<lambda>w. (Inr (), f w))"

definition emit :: "event \<Rightarrow> unit act" where
  "emit ev = modify (\<lambda>w. w\<lparr>trace := trace w @ [ev]\<rparr>)"

text \<open>A \<open>for ... of\<close> loop with awaited body; \<open>continue\<close> is \<open>ret ()\<close>.\<close>

primrec forEach :: "('a \<Rightarrow> unit act) \<Rightarrow> 'a list \<Rightarrow> unit act" where
  "forEach f [] = ret ()"
| "forEach f (x # xs) = bnd (f x) (\<lambda>_. forEach f xs)"

text \<open>
  \<open>Promise.all\<close> over mapped tasks, also through a \<open>PQueue\<close>: the tasks are run here
  one after the other in list order, and the first rejection is the rejection of the whole.
\<close>

primrec mapAll :: "('a \<Rightarrow> 'b act) \<Rightarrow> 'a list \<Rightarrow> 'b list act" where
  "mapAll f [] = ret []"
| "mapAll f (x # xs) = bnd (f x) (\<lambda>y. bnd (mapAll f xs) (\<lambda>ys. ret (y # ys)))"

text \<open>JavaScript truthiness of an optional string: \<open>undefined\<close>, \<open>null\<close> and \<open>""\<close> are falsy.\<close>

definition truthy :: "string option \<Rightarrow> bool" where
  "truthy s = (case s of None \<Rightarrow> False | Some v \<Rightarrow> v \<noteq> [])"

definition FOLDER_MIME :: string where
  "FOLDER_MIME = ''application/vnd.google-apps.folder''"

section \<open>Persistence operations\<close>

definition fetchById :: "model_id \<Rightarrow> connector option act" where
  "fetchById cid = gets (\<lambda>w. find (\<lambda>c. c_id c = cid) (connectors w))"

definition fetchConnectorOrThrow :: "model_id \<Rightarrow> connector act" where
  "fetchConnectorOrThrow cid =
     bnd (fetchById cid) (\<lambda>c. case c of
        None \<Rightarrow> throw (Error ''Connector not found'')
      | Some connector \<Rightarrow> ret connector)"

definition same_key :: "gdfile \<Rightarrow> gdfile \<Rightarrow> bool" where
  "same_key a b = (connectorId a = connectorId b \<and> driveFileId a = driveFileId b)"

definition findOneFile :: "model_id \<Rightarrow> string \<Rightarrow> gdfile option act" where
  "findOneFile cid fid =
     gets (\<lambda>w. find (\<lambda>f. connectorId f = cid \<and> driveFileId f = fid) (files w))"

definition destroyFile :: "gdfile \<Rightarrow> unit act" where
  "destroyFile f = modify (\<lambda>w. w\<lparr>files := filter (\<lambda>x. \<not> same_key x f) (files w)\<rparr>)"

definition updateLastSeen :: "gdfile \<Rightarrow> timestamp \<Rightarrow> unit act" where
  "updateLastSeen f t =
     modify (\<lambda>w. w\<lparr>files := map (\<lambda>x. if same_key x f then x\<lparr>lastSeenTs := Some t\<rparr> else x) (files w)\<rparr>)"

definition upsert_row :: "gdfile \<Rightarrow> gdfile list \<Rightarrow> gdfile list" where
  "upsert_row r rows =
     (if \<exists>x \<in> set rows. same_key x r
      then map (\<lambda>x. if same_key x r then r else x) rows
      else rows @ [r])"

definition upsertFile :: "gdfile \<Rightarrow> unit act" where
  "upsertFile r = modify (\<lambda>w. w\<lparr>files := upsert_row r (files w)\<rparr>)"

definition dataSourceConfigFromConnector :: "connector \<Rightarrow> data_source_config" where
  "dataSourceConfigFromConnector c =
     \<lparr>ds_workspaceId = workspaceId c, ds_dataSourceName = dataSourceName c\<rparr>"

text \<open>
  Modelled from the spec: \<open>deleteFromDataSource\<close> (module \<open>lib/data_sources\<close>) is the
  downstream indexing service's \<open>delete(documentId)\<close>; it removes the document from the
  index unless the call fails.
\<close>

definition deleteFromDataSource :: "env \<Rightarrow> data_source_config \<Rightarrow> string \<Rightarrow> unit act" where
  "deleteFromDataSource env ds docId =
     bnd (emit (DeleteFromDataSource ds docId)) (\<lambda>_.
       case dataSourceDeleteError env ds docId of
         Some e \<Rightarrow> throw e
       | None \<Rightarrow> modify (\<lambda>w. w\<lparr>docs := docs w - {(ds, docId)}\<rparr>))"

section \<open>Deletion\<close>

definition deleteFile :: "env \<Rightarrow> gdfile \<Rightarrow> unit act" where
  "deleteFile env googleDriveFile =
     bnd (fetchConnectorOrThrow (connectorId googleDriveFile)) (\<lambda>connector.
     bnd (if isGoogleDriveSpreadSheetFile env googleDriveFile then
            bnd (emit (DeleteSpreadsheet (connectorId googleDriveFile) (driveFileId googleDriveFile)))
              (\<lambda>_. lift (deleteSpreadsheet env connector googleDriveFile))
          else if mimeType googleDriveFile \<noteq> FOLDER_MIME then
            deleteFromDataSource env (dataSourceConfigFromConnector connector)
              (dustFileId googleDriveFile)
          else ret ()) (\<lambda>_.
     destroyFile googleDriveFile))"

definition deleteOneFile :: "env \<Rightarrow> model_id \<Rightarrow> drive_object \<Rightarrow> unit act" where
  "deleteOneFile env cid file =
     bnd (findOneFile cid (o_id file)) (\<lambda>googleDriveFile.
       case googleDriveFile of
         None \<Rightarrow> ret ()
       | Some f \<Rightarrow> deleteFile env f)"

section \<open>Scope membership\<close>

definition getFoldersToSync :: "model_id \<Rightarrow> string list act" where
  "getFoldersToSync cid =
     gets (\<lambda>w. map snd (filter (\<lambda>f. fst f = cid) (folders w)))"

definition objectIsInFolders ::
  "env \<Rightarrow> model_id \<Rightarrow> oauth \<Rightarrow> drive_object \<Rightarrow> string list \<Rightarrow> timestamp \<Rightarrow> bool act" where
  "objectIsInFolders env cid auth driveFile foldersIds startSyncTs =
     bnd (lift (getFileParentsMemoized env cid auth driveFile startSyncTs)) (\<lambda>parents.
       ret (\<exists>p \<in> set parents. o_id p \<in> set foldersIds))"

section \<open>Garbage collection\<close>

definition stale :: "model_id \<Rightarrow> timestamp \<Rightarrow> gdfile \<Rightarrow> bool" where
  "stale cid cutoff f =
     (connectorId f = cid \<and> (case lastSeenTs f of None \<Rightarrow> True | Some t \<Rightarrow> t < cutoff))"

definition gc_candidates :: "model_id \<Rightarrow> timestamp \<Rightarrow> world \<Rightarrow> gdfile list" where
  "gc_candidates cid cutoff w = take 100 (filter (stale cid cutoff) (files w))"

definition gcOne ::
  "env \<Rightarrow> model_id \<Rightarrow> oauth \<Rightarrow> string list \<Rightarrow> timestamp \<Rightarrow> gdfile \<Rightarrow> unit act" where
  "gcOne env cid auth selectedFolders lastSeen f =
     bnd (emit (GetObject (driveFileId f))) (\<lambda>_.
     bnd (lift (getGoogleDriveObject env auth (driveFileId f))) (\<lambda>driveFile.
       case driveFile of
         None \<Rightarrow> deleteFile env f
       | Some d \<Rightarrow>
           bnd (objectIsInFolders env cid auth d selectedFolders lastSeen) (\<lambda>isInFolder.
             if \<not> isInFolder \<or> o_trashed d
             then deleteOneFile env cid d
             else updateLastSeen f (now env))))"

definition garbageCollector :: "env \<Rightarrow> model_id \<Rightarrow> timestamp \<Rightarrow> nat act" where
  "garbageCollector env cid lastSeen =
     bnd (fetchConnectorOrThrow cid) (\<lambda>connector.
     bnd (lift (getAuthObject env (connectionId connector))) (\<lambda>authCredentials.
     bnd (gets (gc_candidates cid lastSeen)) (\<lambda>fs.
     bnd (getFoldersToSync cid) (\<lambda>selectedFolders.
     bnd (forEach (gcOne env cid authCredentials selectedFolders lastSeen) fs) (\<lambda>_.
     ret (length fs))))))"

section \<open>Full sync of one folder page\<close>

definition empty_result :: sync_result where
  "empty_result = \<lparr>r_nextPageToken = None, r_count = 0, r_subfolders = []\<rparr>"

definition visitedFolder :: "model_id \<Rightarrow> string \<Rightarrow> timestamp \<Rightarrow> gdfile option act" where
  "visitedFolder cid fid startSyncTs =
     gets (\<lambda>w. find (\<lambda>f. connectorId f = cid \<and> driveFileId f = fid \<and>
                          (case lastSeenTs f of None \<Rightarrow> False | Some t \<Rightarrow> startSyncTs \<le> t))
                  (files w))"

definition toDustType :: "env \<Rightarrow> oauth \<Rightarrow> schema_file \<Rightarrow> drive_object act" where
  "toDustType env auth file =
     (if \<not> truthy (sf_id file) \<or> \<not> truthy (sf_createdTime file) \<or>
         \<not> truthy (sf_name file) \<or> \<not> truthy (sf_mimeType file)
      then throw (Error ''Invalid file'')
      else lift (driveObjectToDustType env file auth))"

definition callSyncOneFile ::
  "env \<Rightarrow> model_id \<Rightarrow> oauth \<Rightarrow> data_source_config \<Rightarrow> drive_object \<Rightarrow> timestamp \<Rightarrow> bool
    \<Rightarrow> bool act" where
  "callSyncOneFile env cid auth ds file startSyncTs isBatchSync =
     bnd (emit (SyncOneFile (o_id file))) (\<lambda>_. (\<lambda>w.
       case syncOneFile env cid auth ds file startSyncTs isBatchSync (files w, docs w) of
         (r, fs, ds') \<Rightarrow> (r, w\<lparr>files := fs, docs := ds'\<rparr>)))"

definition syncPageFile ::
  "env \<Rightarrow> model_id \<Rightarrow> oauth \<Rightarrow> data_source_config \<Rightarrow> timestamp \<Rightarrow> drive_object \<Rightarrow> bool act" where
  "syncPageFile env cid auth ds startSyncTs file =
     (if \<not> o_trashed file
      then callSyncOneFile env cid auth ds file startSyncTs True
      else bnd (deleteOneFile env cid file) (\<lambda>_. ret False))"

definition listFolder ::
  "env \<Rightarrow> model_id \<Rightarrow> oauth \<Rightarrow> data_source_config \<Rightarrow> drive_object \<Rightarrow> string list
    \<Rightarrow> timestamp \<Rightarrow> string option \<Rightarrow> sync_result act" where
  "listFolder env cid auth ds driveFolder mimeTypesToSync startSyncTs nextPageToken =
     bnd (lift (getDriveClient env)) (\<lambda>_.
     bnd (emit (FilesList (o_id driveFolder) nextPageToken)) (\<lambda>_.
     bnd (lift (filesList env (o_id driveFolder) mimeTypesToSync nextPageToken)) (\<lambda>res.
       if fl_status res \<noteq> 200 then throw (Error ''Error getting files'')
       else case fl_files res of
         None \<Rightarrow> throw (Error ''Files list is undefined'')
       | Some fs \<Rightarrow>
           bnd (mapAll (toDustType env auth)
                  (filter (\<lambda>file. truthy (sf_id file) \<and> truthy (sf_createdTime file)) fs))
             (\<lambda>filesToSync.
           bnd (mapAll (syncPageFile env cid auth ds startSyncTs) filesToSync) (\<lambda>results.
             ret \<lparr>r_nextPageToken =
                    (if truthy (fl_nextPageToken res) then fl_nextPageToken res else None),
                  r_count = length (filter (\<lambda>r. r) results),
                  r_subfolders =
                    map o_id (filter (\<lambda>file. o_mimeType file = FOLDER_MIME) filesToSync)\<rparr>)))))"

definition syncFiles ::
  "env \<Rightarrow> model_id \<Rightarrow> data_source_config \<Rightarrow> string \<Rightarrow> timestamp \<Rightarrow> string option
    \<Rightarrow> sync_result act" where
  "syncFiles env cid ds driveFolderId startSyncTs nextPageToken =
     bnd (fetchConnectorOrThrow cid) (\<lambda>connector.
     bnd (gets (\<lambda>w. configs w cid)) (\<lambda>config.
     let mimeTypesToSync =
           getMimeTypesToSync env (case config of None \<Rightarrow> False | Some p \<Rightarrow> p) in
     bnd (lift (getAuthObject env (connectionId connector))) (\<lambda>authCredentials.
     bnd (emit (GetObject driveFolderId)) (\<lambda>_.
     bnd (lift (getGoogleDriveObject env authCredentials driveFolderId)) (\<lambda>driveFolder.
       case driveFolder of
         None \<Rightarrow> ret empty_result
       | Some folder \<Rightarrow>
           bnd (if nextPageToken = None
                then visitedFolder cid (o_id folder) startSyncTs
                else ret None) (\<lambda>visited.
             case visited of
               Some _ \<Rightarrow> ret empty_result
             | None \<Rightarrow>
                 listFolder env cid authCredentials ds folder mimeTypesToSync
                   startSyncTs nextPageToken))))))"

section \<open>Incremental sync of one change-feed page\<close>

definition getSyncPageToken :: "env \<Rightarrow> model_id \<Rightarrow> string \<Rightarrow> bool \<Rightarrow> string act" where
  "getSyncPageToken env cid driveId isSharedDrive =
     bnd (fetchConnectorOrThrow cid) (\<lambda>connector.
     bnd (gets (\<lambda>w. tokens w (cid, driveId))) (\<lambda>last.
       case last of
         Some syncToken \<Rightarrow> ret syncToken
       | None \<Rightarrow>
           bnd (lift (getDriveClient env)) (\<lambda>_.
           bnd (emit GetStartPageToken) (\<lambda>_.
           bnd (lift (getStartPageToken env isSharedDrive driveId)) (\<lambda>startTokenRes.
             if st_status startTokenRes \<noteq> 200
             then throw (Error ''Error getting start page token'')
             else case st_startPageToken startTokenRes of
               None \<Rightarrow> throw (Error ''No start page token found'')
             | Some t \<Rightarrow>
                 if t = [] then throw (Error ''No start page token found'') else ret t)))))"

definition folderRow :: "env \<Rightarrow> model_id \<Rightarrow> drive_object \<Rightarrow> drive_object \<Rightarrow> gdfile" where
  "folderRow env cid driveFile file =
     \<lparr>connectorId = cid,
      dustFileId = getDocumentId env (o_id driveFile),
      driveFileId = o_id file,
      f_name = o_name file,
      mimeType = o_mimeType file,
      parentId = o_parent file,
      lastSeenTs = Some (now env)\<rparr>"

definition processChange ::
  "env \<Rightarrow> model_id \<Rightarrow> data_source_config \<Rightarrow> oauth \<Rightarrow> string list \<Rightarrow> string list
    \<Rightarrow> timestamp \<Rightarrow> change \<Rightarrow> unit act" where
  "processChange env cid ds auth mimeTypesToSync selectedFoldersIds startSyncTs ch =
     bnd (emit Heartbeat) (\<lambda>_.
     case ch_file ch of
       None \<Rightarrow> ret ()
     | Some cfile \<Rightarrow>
       if changeType ch \<noteq> Some ''file'' then ret ()
       else case sf_mimeType cfile of
         None \<Rightarrow> ret ()
       | Some mt \<Rightarrow>
         if mt = [] \<or> mt \<notin> set mimeTypesToSync then ret ()
         else case sf_id cfile of
           None \<Rightarrow> ret ()
         | Some fid \<Rightarrow>
           if fid = [] then ret ()
           else
             bnd (lift (driveObjectToDustType env cfile auth)) (\<lambda>file.
             bnd (objectIsInFolders env cid auth file selectedFoldersIds startSyncTs)
               (\<lambda>inFolders.
               if \<not> inFolders \<or> sf_trashed cfile = Some True then
                 bnd (findOneFile cid fid) (\<lambda>localFile.
                   case localFile of
                     None \<Rightarrow> ret ()
                   | Some _ \<Rightarrow> deleteOneFile env cid file)
               else if \<not> truthy (sf_createdTime cfile) \<or> \<not> truthy (sf_name cfile)
                       \<or> \<not> truthy (sf_id cfile)
               then throw (Error ''Invalid file'')
               else
                 bnd (lift (driveObjectToDustType env cfile auth)) (\<lambda>driveFile.
                   if o_mimeType driveFile = FOLDER_MIME
                   then upsertFile (folderRow env cid driveFile file)
                   else bnd (callSyncOneFile env cid auth ds driveFile startSyncTs False)
                          (\<lambda>_. ret ())))))"

definition persistSyncToken :: "model_id \<Rightarrow> string \<Rightarrow> string \<Rightarrow> unit act" where
  "persistSyncToken cid driveId syncToken =
     modify (\<lambda>w. w\<lparr>tokens := (tokens w)((cid, driveId) \<mapsto> syncToken)\<rparr>)"

text \<open>The part of \<open>incrementalSync\<close> that follows the \<open>changes.list\<close> call.\<close>

definition consumePage ::
  "env \<Rightarrow> model_id \<Rightarrow> data_source_config \<Rightarrow> string \<Rightarrow> oauth \<Rightarrow> string list \<Rightarrow> string list
    \<Rightarrow> timestamp \<Rightarrow> changes_response \<Rightarrow> string option act" where
  "consumePage env cid ds driveId auth mimeTypesToSync selectedFoldersIds startSyncTs changesRes =
     (if cr_status changesRes \<noteq> 200 then throw (Error ''Error getting changes'')
      else case cr_changes changesRes of
        None \<Rightarrow> throw (Error ''changes list is undefined'')
      | Some changes \<Rightarrow>
          bnd (forEach (processChange env cid ds auth mimeTypesToSync
                          selectedFoldersIds startSyncTs) changes) (\<lambda>_.
          bnd (case cr_newStartPageToken changesRes of
                 None \<Rightarrow> ret ()
               | Some t \<Rightarrow> if t = [] then ret () else persistSyncToken cid driveId t) (\<lambda>_.
            ret (if truthy (cr_nextPageToken changesRes)
                 then cr_nextPageToken changesRes else None))))"

definition incrementalSyncBody ::
  "env \<Rightarrow> model_id \<Rightarrow> data_source_config \<Rightarrow> string \<Rightarrow> bool \<Rightarrow> timestamp \<Rightarrow> string option
    \<Rightarrow> string option act" where
  "incrementalSyncBody env cid ds driveId isSharedDrive startSyncTs nextPageToken =
     bnd (fetchConnectorOrThrow cid) (\<lambda>connector.
     bnd (if truthy nextPageToken then ret (case nextPageToken of Some t \<Rightarrow> t | None \<Rightarrow> [])
          else getSyncPageToken env cid driveId isSharedDrive) (\<lambda>pageToken.
     bnd (gets (\<lambda>w. configs w cid)) (\<lambda>config.
     let mimeTypesToSync =
           getMimeTypesToSync env (case config of None \<Rightarrow> False | Some p \<Rightarrow> p) in
     bnd (getFoldersToSync cid) (\<lambda>selectedFoldersIds.
     bnd (lift (getAuthObject env (connectionId connector))) (\<lambda>authCredentials.
     bnd (lift (getDriveClient env)) (\<lambda>_.
     bnd (emit (ChangesList (Some pageToken))) (\<lambda>_.
     bnd (lift (changesList env pageToken isSharedDrive driveId)) (\<lambda>changesRes.
       consumePage env cid ds driveId authCredentials mimeTypesToSync selectedFoldersIds
         startSyncTs changesRes))))))))"

definition lostAccess :: "error \<Rightarrow> bool" where
  "lostAccess e = (case e of GaxiosError st _ \<Rightarrow> st = Some 403 | _ \<Rightarrow> False)"

definition incrementalSync ::
  "env \<Rightarrow> model_id \<Rightarrow> data_source_config \<Rightarrow> string \<Rightarrow> bool \<Rightarrow> timestamp \<Rightarrow> string option
    \<Rightarrow> string option act" where
  "incrementalSync env cid ds driveId isSharedDrive startSyncTs nextPageToken =
     catch (incrementalSyncBody env cid ds driveId isSharedDrive startSyncTs nextPageToken)
       (\<lambda>e. if lostAccess e
             then bnd (emit (LogError ''Looks like we lost access to this drive. Skipping''))
                    (\<lambda>_. ret None)
             else throw e)"

section \<open>Webhook renewal\<close>




definition destroyWebhook :: "webhook \<Rightarrow> unit act" where
  "destroyWebhook wh =
     modify (\<lambda>w. w\<lparr>webhooks := filter (\<lambda>x. wh_id x \<noteq> wh_id wh) (webhooks w)\<rparr>)"

definition updateWebhook :: "webhook \<Rightarrow> (webhook \<Rightarrow> webhook) \<Rightarrow> unit act" where
  "updateWebhook wh upd =
     modify (\<lambda>w. w\<lparr>webhooks := map (\<lambda>x. if wh_id x = wh_id wh then upd x else x) (webhooks w)\<rparr>)"

text \<open>
  Modelled from the spec: \<open>syncFailed\<close> (module \<open>lib/sync_status\<close>) marks the connector's
  sync as failed, with the error type it is given.
\<close>

definition syncFailed :: "model_id \<Rightarrow> string \<Rightarrow> unit act" where
  "syncFailed cid errorType =
     modify (\<lambda>w. w\<lparr>syncStatus := (syncStatus w)(cid \<mapsto> errorType)\<rparr>)"

definition callEnsureWebhook :: "env \<Rightarrow> connector \<Rightarrow> string \<Rightarrow> string option result act" where
  "callEnsureWebhook env connector driveId =
     bnd (emit (EnsureWebhook (c_id connector) driveId)) (\<lambda>_. (\<lambda>w.
       case ensureWebhookForDriveId env connector driveId
              (GOOGLE_DRIVE_WEBHOOK_RENEW_MARGIN_MS env) (webhooks w) of
         Inl e \<Rightarrow> (Inl e, w)
       | Inr (res, created) \<Rightarrow> (Inr res, w\<lparr>webhooks := webhooks w @ created\<rparr>)))"

definition renewTry :: "env \<Rightarrow> connector \<Rightarrow> webhook \<Rightarrow> unit act" where
  "renewTry env connector wh =
     bnd (lift (getAuthObject env (connectionId connector))) (\<lambda>auth.
     bnd (emit (GetObject (wh_driveId wh))) (\<lambda>_.
     bnd (lift (getGoogleDriveObject env auth (wh_driveId wh))) (\<lambda>remoteDrive.
       case remoteDrive of
         None \<Rightarrow> destroyWebhook wh
       | Some _ \<Rightarrow>
           bnd (callEnsureWebhook env connector (wh_driveId wh)) (\<lambda>res.
             case res of
               Err e \<Rightarrow> throw e
             | Ok v \<Rightarrow>
                 if truthy v
                 then updateWebhook wh (\<lambda>x. x\<lparr>renewedByWebhookId := v\<rparr>)
                 else emit (LogError ''Found a webhook to renew but did not proceed to the renewal process. Need to investigate.'')))))"








section \<open>Events issued by a call, and concrete scenarios\<close>

text \<open>The events a call appended to the trace.\<close>

definition issued :: "world \<Rightarrow> world \<Rightarrow> event list" where
  "issued w w' = drop (length (trace w)) (trace w')"

text \<open>
  A concrete connector watching folder \<open>F1\<close>, which holds \<open>doc1\<close>; the scenarios
  below are variations of this environment and store.
\<close>

definition conn1 :: connector where
  "conn1 = \<lparr>c_id = 1, connectionId = ''connection-1'', workspaceId = ''ws1'',
            dataSourceName = ''managed-google_drive''\<rparr>"

definition ds1 :: data_source_config where
  "ds1 = \<lparr>ds_workspaceId = ''ws1'', ds_dataSourceName = ''managed-google_drive''\<rparr>"

definition folderF1 :: drive_object where
  "folderF1 = \<lparr>o_id = ''F1'', o_name = ''Folder 1'', o_parent = None,
                o_mimeType = ''application/vnd.google-apps.folder'', o_trashed = False\<rparr>"

definition remoteDoc1 :: drive_object where
  "remoteDoc1 = \<lparr>o_id = ''doc1'', o_name = ''Doc 1'', o_parent = Some ''F1'',
                  o_mimeType = ''text/plain'', o_trashed = False\<rparr>"

definition rowF1 :: gdfile where
  "rowF1 = \<lparr>connectorId = 1, dustFileId = ''gdrive-F1'', driveFileId = ''F1'',
             f_name = ''Folder 1'', mimeType = ''application/vnd.google-apps.folder'',
             parentId = None, lastSeenTs = Some 500\<rparr>"

definition rowDoc1 :: gdfile where
  "rowDoc1 = \<lparr>connectorId = 1, dustFileId = ''gdrive-doc1'', driveFileId = ''doc1'',
               f_name = ''Doc 1'', mimeType = ''text/plain'',
               parentId = Some ''F1'', lastSeenTs = Some 50\<rparr>"

definition rowPdf1 :: gdfile where
  "rowPdf1 = \<lparr>connectorId = 1, dustFileId = ''gdrive-pdf1'', driveFileId = ''pdf1'',
               f_name = ''Report'', mimeType = ''application/pdf'',
               parentId = Some ''F1'', lastSeenTs = Some 50\<rparr>"

definition env0 :: env where
  "env0 =
    \<lparr>now = 1000,
     GOOGLE_DRIVE_WEBHOOK_RENEW_MARGIN_MS = 3600000,
     getAuthObject = (\<lambda>_. Inr ''credentials''),
     getDriveClient = Inr (),
     getGoogleDriveObject = (\<lambda>_ fid.
        Inr (if fid = ''F1'' then Some folderF1
             else if fid = ''doc1'' then Some remoteDoc1 else None)),
     getMimeTypesToSync = (\<lambda>pdfEnabled.
        [''text/plain'', ''application/vnd.google-apps.folder'']
          @ (if pdfEnabled then [''application/pdf''] else [])),
     getDocumentId = (\<lambda>i. ''gdrive-'' @ i),
     driveObjectToDustType = (\<lambda>f _.
        Inr \<lparr>o_id = (case sf_id f of Some i \<Rightarrow> i | None \<Rightarrow> []),
             o_name = (case sf_name f of Some n \<Rightarrow> n | None \<Rightarrow> []),
             o_parent = Some ''F1'',
             o_mimeType = (case sf_mimeType f of Some m \<Rightarrow> m | None \<Rightarrow> []),
             o_trashed = (sf_trashed f = Some True)\<rparr>),
     getFileParentsMemoized = (\<lambda>_ _ f _.
        Inr (if o_parent f = Some ''F1'' then [f, folderF1] else [f])),
     filesList = (\<lambda>_ _ _. Inr \<lparr>fl_status = 200, fl_files = Some [], fl_nextPageToken = None\<rparr>),
     changesList = (\<lambda>_ _ _.
        Inr \<lparr>cr_status = 200, cr_changes = Some [], cr_nextPageToken = None,
             cr_newStartPageToken = Some ''t1''\<rparr>),
     getStartPageToken = (\<lambda>_ _. Inr \<lparr>st_status = 200, st_startPageToken = Some ''t0''\<rparr>),
     syncOneFile = (\<lambda>_ _ _ _ _ _ s. (Inr True, s)),
     isGoogleDriveSpreadSheetFile =
       (\<lambda>f. mimeType f = ''application/vnd.google-apps.spreadsheet''),
     deleteSpreadsheet = (\<lambda>_ _. Inr ()),
     dataSourceDeleteError = (\<lambda>_ _. None),
     ensureWebhookForDriveId = (\<lambda>c d _ _.
        Inr (Ok (Some ''channel-2''),
             [\<lparr>wh_id = 100, wh_connectorId = c_id c, wh_driveId = d,
               expiresAt = 1000 + 7 * 86400000, renewAt = 1000 + 6 * 86400000,
               renewedByWebhookId = None\<rparr>]))\<rparr>"

definition world0 :: world where
  "world0 =
    \<lparr>connectors = [conn1],
     configs = [1 \<mapsto> False],
     files = [rowF1, rowDoc1],
     folders = [(1, ''F1'')],
     tokens = [(1, ''drive1'') \<mapsto> ''t0''],
     webhooks = [],
     syncStatus = Map.empty,
     docs = {(ds1, ''gdrive-doc1'')},
     trace = []\<rparr>"



text \<open>
  Change-feed entries: a text file without \<open>id\<close>; \<open>doc1\<close> without \<open>name\<close>; \<open>doc1\<close>
  marked as trashed; the PDF \<open>pdf1\<close> marked as trashed, while PDF sync is disabled for
  the connector. \<open>envFeed cs\<close> serves \<open>cs\<close> as the last page of the change feed.
\<close>

definition fileNoId :: schema_file where
  "fileNoId = \<lparr>sf_id = None, sf_name = Some ''Doc 1'', sf_mimeType = Some ''text/plain'',
       sf_createdTime = Some ''2024-01-01T00:00:00Z'', sf_trashed = Some False\<rparr>"

definition fileNoName :: schema_file where
  "fileNoName = \<lparr>sf_id = Some ''doc1'', sf_name = None, sf_mimeType = Some ''text/plain'',
       sf_createdTime = Some ''2024-01-01T00:00:00Z'', sf_trashed = Some False\<rparr>"

definition fileDoc1Trashed :: schema_file where
  "fileDoc1Trashed = \<lparr>sf_id = Some ''doc1'', sf_name = Some ''Doc 1'',
       sf_mimeType = Some ''text/plain'',
       sf_createdTime = Some ''2024-01-01T00:00:00Z'', sf_trashed = Some True\<rparr>"

definition filePdfTrashed :: schema_file where
  "filePdfTrashed = \<lparr>sf_id = Some ''pdf1'', sf_name = Some ''Report'',
       sf_mimeType = Some ''application/pdf'',
       sf_createdTime = Some ''2024-01-01T00:00:00Z'', sf_trashed = Some True\<rparr>"

definition fileChange :: "schema_file \<Rightarrow> change" where
  "fileChange f = \<lparr>changeType = Some ''file'', ch_file = Some f\<rparr>"

definition lastPage :: "change list \<Rightarrow> changes_response" where
  "lastPage cs = \<lparr>cr_status = 200, cr_changes = Some cs, cr_nextPageToken = None,
                  cr_newStartPageToken = Some ''t1''\<rparr>"

definition envFeed :: "change list \<Rightarrow> env" where
  "envFeed cs = env0\<lparr>changesList := (\<lambda>_ _ _. Inr (lastPage cs))\<rparr>"

definition worldPdf :: world where
  "worldPdf = world0\<lparr>files := [rowF1, rowPdf1], docs := {(ds1, ''gdrive-pdf1'')}\<rparr>"

definition mimes0 :: "string list" where
  "mimes0 = [''text/plain'', ''application/vnd.google-apps.folder'']"












text \<open>
  The verdict of garbage collection on one candidate, read off the remote source: the
  candidate is deleted when the remote object is absent, trashed or outside the selected
  folders.
\<close>

definition gc_deletes :: "env \<Rightarrow> model_id \<Rightarrow> oauth \<Rightarrow> string list \<Rightarrow> timestamp \<Rightarrow> gdfile \<Rightarrow> bool" where
  "gc_deletes env cid auth sel cutoff f =
     (case getGoogleDriveObject env auth (driveFileId f) of
        Inl _ \<Rightarrow> False
      | Inr None \<Rightarrow> True
      | Inr (Some d) \<Rightarrow>
          (case getFileParentsMemoized env cid auth d cutoff of
             Inl _ \<Rightarrow> False
           | Inr ps \<Rightarrow> \<not> (\<exists>p \<in> set ps. o_id p \<in> set sel) \<or> o_trashed d))"

text \<open>
  A store for garbage collection with cutoff 100: the folder \<open>F1\<close> is fresh; \<open>doc1\<close> is
  stale, present remotely and in scope; \<open>pdf1\<close> is stale and absent remotely; \<open>doc2\<close> is
  stale and lies remotely under \<open>F2\<close>, which is not watched.
\<close>

definition remoteDoc2 :: drive_object where
  "remoteDoc2 = \<lparr>o_id = ''doc2'', o_name = ''Doc 2'', o_parent = Some ''F2'',
                  o_mimeType = ''text/plain'', o_trashed = False\<rparr>"

definition rowDoc2 :: gdfile where
  "rowDoc2 = \<lparr>connectorId = 1, dustFileId = ''gdrive-doc2'', driveFileId = ''doc2'',
               f_name = ''Doc 2'', mimeType = ''text/plain'',
               parentId = Some ''F1'', lastSeenTs = None\<rparr>"

definition envGc :: env where
  "envGc = env0\<lparr>getGoogleDriveObject := (\<lambda>_ fid.
     Inr (if fid = ''F1'' then Some folderF1
          else if fid = ''doc1'' then Some remoteDoc1
          else if fid = ''doc2'' then Some remoteDoc2 else None))\<rparr>"

definition worldGc :: world where
  "worldGc = world0\<lparr>files := [rowF1, rowDoc1, rowPdf1, rowDoc2],
     docs := {(ds1, ''gdrive-doc1''), (ds1, ''gdrive-pdf1''), (ds1, ''gdrive-doc2'')}\<rparr>"

section \<open>Basic facts\<close>

lemmas act_defs = ret_def throw_def bnd_def catch_def lift_def gets_def modify_def emit_def

lemmas fixture_defs = env0_def world0_def conn1_def ds1_def folderF1_def remoteDoc1_def
  rowF1_def rowDoc1_def rowPdf1_def

lemma fetchConnectorOrThrow_Some:
  "find (\<lambda>c. c_id c = cid) (connectors w) = Some c \<Longrightarrow> fetchConnectorOrThrow cid w = (Inr c, w)"
  by (simp add: fetchConnectorOrThrow_def fetchById_def act_defs)

lemma fetchConnectorOrThrow_None:
  "find (\<lambda>c. c_id c = cid) (connectors w) = None \<Longrightarrow>
   fetchConnectorOrThrow cid w = (Inl (Error ''Connector not found''), w)"
  by (simp add: fetchConnectorOrThrow_def fetchById_def act_defs)

lemma find_some_member:
  assumes "row \<in> set rows" "P row"
  shows "\<exists>r. find P rows = Some r"
  using assms by (cases "find P rows") (auto simp: find_None_iff)

section \<open>Full sync: revisiting a folder\<close>

text \<open>
  Claim C1, as amended. A first-page call of \<open>syncFiles\<close> (no page token) on a folder whose
  mirror row was seen at or after \<open>startSyncTs\<close> fetches the folder itself from the remote
  source once (\<open>getGoogleDriveObject\<close>, which precedes the visited check), then returns
  the empty result: no listing call, no file sync or deletion, and no change to any table
  or to the index.
\<close>

theorem syncFiles_visited_short_circuit:
  assumes conn: "find (\<lambda>c. c_id c = cid) (connectors w) = Some c"
    and auth: "getAuthObject env (connectionId c) = Inr auth"
    and remote: "getGoogleDriveObject env auth driveFolderId = Inr (Some folder)"
    and row: "row \<in> set (files w)" "connectorId row = cid" "driveFileId row = o_id folder"
             "lastSeenTs row = Some t" "startSyncTs \<le> t"
  shows "syncFiles env cid ds driveFolderId startSyncTs None w =
           (Inr empty_result, w\<lparr>trace := trace w @ [GetObject driveFolderId]\<rparr>)"
proof -
  let ?P = "\<lambda>f. connectorId f = cid \<and> driveFileId f = o_id folder \<and>
                 (case lastSeenTs f of None \<Rightarrow> False | Some t \<Rightarrow> startSyncTs \<le> t)"
  have "?P row" using row by simp
  with row(1) obtain r where r: "find ?P (files w) = Some r"
    using find_some_member [of row "files w" ?P] by blast
  show ?thesis
    using conn auth remote r
    by (simp add: syncFiles_def fetchConnectorOrThrow_Some visitedFolder_def act_defs Let_def)
qed

theorem syncFiles_visited_witness:
  "syncFiles env0 1 ds1 ''F1'' 100 None world0 =
     (Inr empty_result, world0\<lparr>trace := trace world0 @ [GetObject ''F1'']\<rparr>)"
  by (rule syncFiles_visited_short_circuit
        [where c = conn1 and auth = "''credentials''" and folder = folderF1
           and row = rowF1 and t = 500])
     (simp_all add: fixture_defs)

text \<open>
  The claim as stated (zero remote calls) fails: in the scenario store, folder \<open>F1\<close> was
  seen at 500, after the generation start 100, and the call still issues one remote call.
\<close>

theorem syncFiles_visited_counterexample:
  "fst (syncFiles env0 1 ds1 ''F1'' 100 None world0) = Inr empty_result \<and>
   issued world0 (snd (syncFiles env0 1 ds1 ''F1'' 100 None world0)) = [GetObject ''F1''] \<and>
   issued world0 (snd (syncFiles env0 1 ds1 ''F1'' 100 None world0)) \<noteq> []"
  by (simp add: syncFiles_def fetchConnectorOrThrow_def fetchById_def visitedFolder_def
        act_defs Let_def issued_def fixture_defs)

lemmas store_defs = fetchConnectorOrThrow_def fetchById_def findOneFile_def destroyFile_def
  updateLastSeen_def upsertFile_def upsert_row_def same_key_def getFoldersToSync_def
  dataSourceConfigFromConnector_def deleteFromDataSource_def persistSyncToken_def
  destroyWebhook_def updateWebhook_def syncFailed_def

lemmas gc_defs = garbageCollector_def gcOne_def gc_candidates_def stale_def
  objectIsInFolders_def deleteOneFile_def deleteFile_def

lemmas inc_defs = incrementalSyncBody_def consumePage_def getSyncPageToken_def processChange_def
  callSyncOneFile_def folderRow_def truthy_def objectIsInFolders_def deleteOneFile_def
  deleteFile_def

section \<open>Garbage collection: the returned count\<close>

text \<open>
  Claim C6, as amended. \<open>garbageCollector\<close> returns the number of stale candidates it
  examined (\<open>files.length\<close>, at most the page size 100), whether each was deleted or only
  refreshed.
\<close>

theorem garbageCollector_returns_examined:
  "fst (garbageCollector env cid cutoff w) = Inr n \<Longrightarrow>
     n = length (gc_candidates cid cutoff w) \<and> n \<le> 100"
  by (auto simp: garbageCollector_def fetchConnectorOrThrow_def fetchById_def getFoldersToSync_def
        gc_candidates_def act_defs split: option.splits sum.splits prod.splits)

lemma gc_world0:
  "garbageCollector env0 1 100 world0 =
     (Inr 1, world0\<lparr>trace := [GetObject ''doc1''], files := [rowF1, rowDoc1\<lparr>lastSeenTs := Some 1000\<rparr>]\<rparr>)"
  by (simp add: gc_defs store_defs act_defs fixture_defs FOLDER_MIME_def)

theorem garbageCollector_returns_examined_witness:
  "fst (garbageCollector env0 1 100 world0) = Inr 1 \<and>
   1 = length (gc_candidates 1 100 world0) \<and> (1::nat) \<le> 100"
proof -
  have h: "fst (garbageCollector env0 1 100 world0) = Inr 1"
    using gc_world0 by simp
  show ?thesis using h garbageCollector_returns_examined [OF h] by simp
qed

text \<open>
  The claim as stated (the count of objects deleted) fails: the one stale candidate of the
  scenario store is still present remotely and in scope, so it is refreshed, nothing is
  deleted, and the call returns 1.
\<close>

theorem garbageCollector_count_counterexample:
  "fst (garbageCollector env0 1 100 world0) = Inr 1 \<and>
   files (snd (garbageCollector env0 1 100 world0)) = [rowF1, rowDoc1\<lparr>lastSeenTs := Some 1000\<rparr>] \<and>
   length (files world0) - length (files (snd (garbageCollector env0 1 100 world0))) = 0"
  using gc_world0 by (simp add: world0_def)

section \<open>Deleting a mirrored object\<close>

text \<open>
  Claim C10. With the row's connector present, \<open>deleteFile\<close> issues the downstream index
  delete exactly when the row is neither a spreadsheet nor a folder; a spreadsheet goes to
  \<open>deleteSpreadsheet\<close>; for a folder no index delete is issued, and a folder that is not
  a spreadsheet has only its mirror row destroyed. The call returns normally exactly when
  the routed downstream call does not raise, and then the mirror row is destroyed, in
  each of the three cases.
\<close>

theorem deleteFile_routes_by_type:
  assumes c: "find (\<lambda>c. c_id c = connectorId f) (connectors w) = Some c"
  shows "issued w (snd (deleteFile env f w)) =
           (if isGoogleDriveSpreadSheetFile env f
            then [DeleteSpreadsheet (connectorId f) (driveFileId f)]
            else if mimeType f \<noteq> FOLDER_MIME
            then [DeleteFromDataSource (dataSourceConfigFromConnector c) (dustFileId f)]
            else [])
       \<and> (mimeType f = FOLDER_MIME \<longrightarrow>
            (\<forall>d k. DeleteFromDataSource d k \<notin> set (issued w (snd (deleteFile env f w)))))
       \<and> (mimeType f = FOLDER_MIME \<and> \<not> isGoogleDriveSpreadSheetFile env f \<longrightarrow>
            deleteFile env f w =
              (Inr (), w\<lparr>files := filter (\<lambda>x. \<not> same_key x f) (files w)\<rparr>))
       \<and> (fst (deleteFile env f w) = Inr () \<longleftrightarrow>
            (if isGoogleDriveSpreadSheetFile env f then deleteSpreadsheet env c f = Inr ()
             else if mimeType f \<noteq> FOLDER_MIME
             then dataSourceDeleteError env (dataSourceConfigFromConnector c) (dustFileId f) = None
             else True))
       \<and> (fst (deleteFile env f w) = Inr () \<longrightarrow>
            files (snd (deleteFile env f w)) = filter (\<lambda>x. \<not> same_key x f) (files w) \<and>
            (\<forall>x \<in> set (files (snd (deleteFile env f w))). \<not> same_key x f))"
  using c
  by (auto simp: deleteFile_def fetchConnectorOrThrow_Some deleteFromDataSource_def destroyFile_def
        issued_def act_defs split: option.splits sum.splits prod.splits)

theorem deleteFile_routes_by_type_witness:
  "issued world0 (snd (deleteFile env0 rowDoc1 world0)) = [DeleteFromDataSource ds1 ''gdrive-doc1'']
   \<and> files (snd (deleteFile env0 rowDoc1 world0)) = [rowF1]
   \<and> deleteFile env0 rowF1 world0 = (Inr (), world0\<lparr>files := [rowDoc1]\<rparr>)
   \<and> issued world0 (snd (deleteFile env0 rowF1 world0)) = []"
proof -
  have h1: "find (\<lambda>c. c_id c = connectorId rowDoc1) (connectors world0) = Some conn1"
    by (simp add: fixture_defs)
  have h2: "find (\<lambda>c. c_id c = connectorId rowF1) (connectors world0) = Some conn1"
    by (simp add: fixture_defs)
  note T1 = deleteFile_routes_by_type [OF h1, of env0]
  note T2 = deleteFile_routes_by_type [OF h2, of env0]
  have a1: "\<not> isGoogleDriveSpreadSheetFile env0 rowDoc1" "mimeType rowDoc1 \<noteq> FOLDER_MIME"
    "dataSourceConfigFromConnector conn1 = ds1" "dustFileId rowDoc1 = ''gdrive-doc1''"
    "dataSourceDeleteError env0 ds1 ''gdrive-doc1'' = None"
    "filter (\<lambda>x. \<not> same_key x rowDoc1) (files world0) = [rowF1]"
    by (simp_all add: fixture_defs FOLDER_MIME_def dataSourceConfigFromConnector_def same_key_def)
  have a2: "\<not> isGoogleDriveSpreadSheetFile env0 rowF1" "mimeType rowF1 = FOLDER_MIME"
    "filter (\<lambda>x. \<not> same_key x rowF1) (files world0) = [rowDoc1]"
    by (simp_all add: fixture_defs FOLDER_MIME_def same_key_def)
  have doc: "issued world0 (snd (deleteFile env0 rowDoc1 world0)) =
               [DeleteFromDataSource ds1 ''gdrive-doc1'']"
    using conjunct1 [OF T1] a1 by simp
  have ok: "fst (deleteFile env0 rowDoc1 world0) = Inr ()"
    using conjunct1 [OF conjunct2 [OF conjunct2 [OF conjunct2 [OF T1]]]] a1 by simp
  have gone: "files (snd (deleteFile env0 rowDoc1 world0)) = [rowF1]"
    using conjunct2 [OF conjunct2 [OF conjunct2 [OF conjunct2 [OF T1]]]] ok a1 by simp
  have folder: "deleteFile env0 rowF1 world0 = (Inr (), world0\<lparr>files := [rowDoc1]\<rparr>)"
    using conjunct1 [OF conjunct2 [OF conjunct2 [OF T2]]] a2 by simp
  have quiet: "issued world0 (snd (deleteFile env0 rowF1 world0)) = []"
    using conjunct1 [OF T2] a2 by simp
  show ?thesis using doc gone folder quiet by simp
qed

section \<open>Incremental sync: loss of access\<close>





lemmas scenario_defs = fileNoId_def fileNoName_def fileDoc1Trashed_def filePdfTrashed_def
  fileChange_def lastPage_def envFeed_def worldPdf_def mimes0_def

section \<open>Incremental sync: entries with missing fields\<close>

text \<open>
  Claim C9, as amended. Take a change-feed entry of type \<open>file\<close> whose MIME type is in the
  syncable set. If its \<open>id\<close> is missing, the entry is skipped without an error. If its
  \<open>id\<close> is present, it is in the watched scope and not trashed, and its \<open>createdTime\<close>
  or \<open>name\<close> is missing, then processing it throws the hard error \<open>Invalid file\<close>,
  which ends the page and is not the swallowed loss-of-access error.
\<close>

theorem processChange_invalid_file:
  assumes ty: "changeType ch = Some ''file''" and f: "ch_file ch = Some cfile"
    and mt: "sf_mimeType cfile = Some mt" "mt \<noteq> []" "mt \<in> set mimeTypesToSync"
  shows "(\<not> truthy (sf_id cfile) \<longrightarrow>
            processChange env cid ds auth mimeTypesToSync selectedFoldersIds startSyncTs ch w =
              (Inr (), w\<lparr>trace := trace w @ [Heartbeat]\<rparr>))
       \<and> (\<forall>dfile parents.
            truthy (sf_id cfile) \<and>
            driveObjectToDustType env cfile auth = Inr dfile \<and>
            getFileParentsMemoized env cid auth dfile startSyncTs = Inr parents \<and>
            (\<exists>p \<in> set parents. o_id p \<in> set selectedFoldersIds) \<and>
            sf_trashed cfile \<noteq> Some True \<and>
            (\<not> truthy (sf_createdTime cfile) \<or> \<not> truthy (sf_name cfile)) \<longrightarrow>
            processChange env cid ds auth mimeTypesToSync selectedFoldersIds startSyncTs ch w =
              (Inl (Error ''Invalid file''), w\<lparr>trace := trace w @ [Heartbeat]\<rparr>) \<and>
            (\<forall>page rest. cr_status page = 200 \<and> cr_changes page = Some (ch # rest) \<longrightarrow>
               consumePage env cid ds driveId auth mimeTypesToSync selectedFoldersIds
                 startSyncTs page w =
               (Inl (Error ''Invalid file''), w\<lparr>trace := trace w @ [Heartbeat]\<rparr>)))
       \<and> \<not> lostAccess (Error ''Invalid file'')"
proof (intro conjI impI allI)
  assume "\<not> truthy (sf_id cfile)"
  then show "processChange env cid ds auth mimeTypesToSync selectedFoldersIds startSyncTs ch w =
              (Inr (), w\<lparr>trace := trace w @ [Heartbeat]\<rparr>)"
    using ty f mt
    by (auto simp: processChange_def truthy_def act_defs split: option.splits)
next
  fix dfile parents
  assume h: "truthy (sf_id cfile) \<and>
            driveObjectToDustType env cfile auth = Inr dfile \<and>
            getFileParentsMemoized env cid auth dfile startSyncTs = Inr parents \<and>
            (\<exists>p \<in> set parents. o_id p \<in> set selectedFoldersIds) \<and>
            sf_trashed cfile \<noteq> Some True \<and>
            (\<not> truthy (sf_createdTime cfile) \<or> \<not> truthy (sf_name cfile))"
  then obtain fid where fid: "sf_id cfile = Some fid" "fid \<noteq> []"
    by (auto simp: truthy_def split: option.splits)
  show one: "processChange env cid ds auth mimeTypesToSync selectedFoldersIds startSyncTs ch w =
              (Inl (Error ''Invalid file''), w\<lparr>trace := trace w @ [Heartbeat]\<rparr>)"
    using ty f mt h fid
    by (auto simp: processChange_def objectIsInFolders_def act_defs)
  fix page :: changes_response and rest
  assume "cr_status page = 200 \<and> cr_changes page = Some (ch # rest)"
  then show "consumePage env cid ds driveId auth mimeTypesToSync selectedFoldersIds
                 startSyncTs page w =
               (Inl (Error ''Invalid file''), w\<lparr>trace := trace w @ [Heartbeat]\<rparr>)"
    using one by (simp add: consumePage_def bnd_def)
next
  show "\<not> lostAccess (Error ''Invalid file'')" by (simp add: lostAccess_def)
qed


theorem processChange_invalid_file_witness:
  "processChange env0 1 ds1 ''credentials'' mimes0 [''F1''] 100 (fileChange fileNoName) world0 =
     (Inl (Error ''Invalid file''), world0\<lparr>trace := trace world0 @ [Heartbeat]\<rparr>)
   \<and> processChange env0 1 ds1 ''credentials'' mimes0 [''F1''] 100 (fileChange fileNoId) world0 =
     (Inr (), world0\<lparr>trace := trace world0 @ [Heartbeat]\<rparr>)"
proof -
  have a: "changeType (fileChange fileNoName) = Some ''file''"
    "ch_file (fileChange fileNoName) = Some fileNoName"
    "sf_mimeType fileNoName = Some ''text/plain''" "''text/plain'' \<noteq> []"
    "''text/plain'' \<in> set mimes0"
    by (simp_all add: scenario_defs)
  have b: "changeType (fileChange fileNoId) = Some ''file''"
    "ch_file (fileChange fileNoId) = Some fileNoId"
    "sf_mimeType fileNoId = Some ''text/plain''"
    by (simp_all add: scenario_defs)
  define d where "d = \<lparr>o_id = ''doc1'', o_name = [], o_parent = Some ''F1'',
      o_mimeType = ''text/plain'', o_trashed = False\<rparr>"
  have c: "truthy (sf_id fileNoName) \<and>
           driveObjectToDustType env0 fileNoName ''credentials'' = Inr d \<and>
           getFileParentsMemoized env0 1 ''credentials'' d 100 = Inr [d, folderF1] \<and>
           (\<exists>p \<in> set [d, folderF1]. o_id p \<in> set [''F1'']) \<and>
           sf_trashed fileNoName \<noteq> Some True \<and>
           (\<not> truthy (sf_createdTime fileNoName) \<or> \<not> truthy (sf_name fileNoName))"
    by (simp add: scenario_defs fixture_defs truthy_def d_def)
  have e: "\<not> truthy (sf_id fileNoId)"
    by (simp add: scenario_defs truthy_def)
  note T1 = processChange_invalid_file [where env = env0 and cid = 1 and ds = ds1
      and auth = "''credentials''" and selectedFoldersIds = "[''F1'']" and startSyncTs = 100
      and w = world0 and driveId = "''drive1''", OF a]
  note T2 = processChange_invalid_file [where env = env0 and cid = 1 and ds = ds1
      and auth = "''credentials''" and selectedFoldersIds = "[''F1'']" and startSyncTs = 100
      and w = world0 and driveId = "''drive1''", OF b a(4) a(5)]
  have r1: "processChange env0 1 ds1 ''credentials'' mimes0 [''F1''] 100 (fileChange fileNoName) world0 =
     (Inl (Error ''Invalid file''), world0\<lparr>trace := trace world0 @ [Heartbeat]\<rparr>)"
    using conjunct1 [OF conjunct2 [OF T1], rule_format, OF c] by simp
  have r2: "processChange env0 1 ds1 ''credentials'' mimes0 [''F1''] 100 (fileChange fileNoId) world0 =
     (Inr (), world0\<lparr>trace := trace world0 @ [Heartbeat]\<rparr>)"
    using conjunct1 [OF T2] e by simp
  show ?thesis using r1 r2 by simp
qed

text \<open>
  The claim as stated fails for a missing \<open>id\<close>: the entry passes the change-type and
  MIME-type filters, and the activity returns normally instead of throwing.
\<close>

theorem processChange_missing_id_counterexample:
  "fst (incrementalSync (envFeed [fileChange fileNoId]) 1 ds1 ''drive1'' False 100 None world0) = Inr None
   \<and> issued world0 (snd (incrementalSync (envFeed [fileChange fileNoId]) 1 ds1 ''drive1'' False 100 None world0))
       = [ChangesList (Some ''t0''), Heartbeat]"
  by (simp add: incrementalSync_def inc_defs store_defs act_defs fixture_defs scenario_defs
        Let_def issued_def)

section \<open>Incremental sync: out-of-scope and trashed entries\<close>








section \<open>Incremental sync: the persisted cursor\<close>


















section \<open>Webhook renewal: failures\<close>





lemma renewTry_trace_webhooks:
  "webhooks (snd (renewTry env c wh (w\<lparr>trace := t\<rparr>))) = webhooks (snd (renewTry env c wh w))"
  by (auto simp: renewTry_def callEnsureWebhook_def destroyWebhook_def updateWebhook_def act_defs
        split: option.splits sum.splits prod.splits result.splits if_splits)

lemma renewTry_trace_status:
  "syncStatus (snd (renewTry env c wh w)) = syncStatus w"
  by (auto simp: renewTry_def callEnsureWebhook_def destroyWebhook_def updateWebhook_def act_defs
        split: option.splits sum.splits prod.splits result.splits if_splits)







section \<open>Webhook renewal: selection and hand-over\<close>















section \<open>Garbage collection: reconciliation of stale objects\<close>

lemmas gc_scenario_defs = remoteDoc2_def rowDoc2_def envGc_def worldGc_def

lemma deleteFile_files:
  assumes "deleteFile env f w = (Inr (), w')"
  shows "files w' = filter (\<lambda>x. \<not> same_key x f) (files w)"
  using assms
  by (auto simp: deleteFile_def deleteFromDataSource_def destroyFile_def fetchConnectorOrThrow_def
        fetchById_def act_defs split: option.splits sum.splits prod.splits if_splits)

lemma deleteOneFile_files:
  assumes "deleteOneFile env cid d w = (Inr (), w')"
  shows "files w' = filter (\<lambda>x. \<not> (connectorId x = cid \<and> driveFileId x = o_id d)) (files w)"
proof (cases "find (\<lambda>f. connectorId f = cid \<and> driveFileId f = o_id d) (files w)")
  case None
  then have "w' = w" using assms by (simp add: deleteOneFile_def findOneFile_def act_defs)
  moreover have "filter (\<lambda>x. \<not> (connectorId x = cid \<and> driveFileId x = o_id d)) (files w) = files w"
    using None by (auto simp: find_None_iff filter_id_conv)
  ultimately show ?thesis by simp
next
  case (Some row)
  then have k: "connectorId row = cid" "driveFileId row = o_id d"
    by (auto simp: find_Some_iff)
  have "deleteFile env row w = (Inr (), w')"
    using assms Some by (simp add: deleteOneFile_def findOneFile_def act_defs)
  then have "files w' = filter (\<lambda>x. \<not> same_key x row) (files w)"
    by (rule deleteFile_files)
  then show ?thesis using k by (simp add: same_key_def)
qed

lemma gcOne_files:
  assumes ok: "gcOne env cid auth sel cutoff f w = (Inr (), w')"
    and cidf: "connectorId f = cid"
    and rid: "\<forall>d. getGoogleDriveObject env auth (driveFileId f) = Inr (Some d) \<longrightarrow> o_id d = driveFileId f"
  shows "files w' =
           (if gc_deletes env cid auth sel cutoff f
            then filter (\<lambda>x. \<not> same_key x f) (files w)
            else map (\<lambda>x. if same_key x f then x\<lparr>lastSeenTs := Some (now env)\<rparr> else x) (files w))"
proof (cases "getGoogleDriveObject env auth (driveFileId f)")
  case (Inl e)
  then show ?thesis using ok by (simp add: gcOne_def act_defs)
next
  case (Inr r)
  show ?thesis
  proof (cases r)
    case None
    then have "deleteFile env f (w\<lparr>trace := trace w @ [GetObject (driveFileId f)]\<rparr>) = (Inr (), w')"
      using ok Inr by (simp add: gcOne_def act_defs)
    from deleteFile_files [OF this] show ?thesis
      using Inr None by (simp add: gc_deletes_def)
  next
    case (Some d)
    then have id: "o_id d = driveFileId f" using rid Inr by simp
    show ?thesis
    proof (cases "getFileParentsMemoized env cid auth d cutoff")
      case (Inl e)
      then show ?thesis using ok Inr Some by (simp add: gcOne_def objectIsInFolders_def act_defs)
    next
      case ps: (Inr ps)
      show ?thesis
      proof (cases "\<not> (\<exists>p \<in> set ps. o_id p \<in> set sel) \<or> o_trashed d")
        case True
        then have "deleteOneFile env cid d (w\<lparr>trace := trace w @ [GetObject (driveFileId f)]\<rparr>) = (Inr (), w')"
          using ok Inr Some ps by (auto simp: gcOne_def objectIsInFolders_def act_defs)
        from deleteOneFile_files [OF this] show ?thesis
          using Inr Some ps True id cidf by (simp add: gc_deletes_def same_key_def)
      next
        case False
        then show ?thesis
          using ok Inr Some ps by (auto simp: gcOne_def objectIsInFolders_def updateLastSeen_def gc_deletes_def act_defs)
      qed
    qed
  qed
qed


lemma forEach_Cons_ok:
  assumes "forEach f (x # xs) w = (Inr (), w')"
  obtains w1 where "f x w = (Inr (), w1)" "forEach f xs w1 = (Inr (), w')"
  using assms by (auto simp: bnd_def split: prod.splits sum.splits)

lemma same_key_keys:
  "same_key a b \<longleftrightarrow> (connectorId a, driveFileId a) = (connectorId b, driveFileId b)"
  by (auto simp: same_key_def)

lemma same_key_refresh: "same_key (x\<lparr>lastSeenTs := t\<rparr>) f = same_key x f"
  by (simp add: same_key_def)

lemma gcOne_step:
  assumes ok: "gcOne env cid auth sel cutoff g w = (Inr (), w1)"
    and cidf: "connectorId g = cid"
    and rid: "\<forall>fid d. getGoogleDriveObject env auth fid = Inr (Some d) \<longrightarrow> o_id d = fid"
  shows "\<forall>x. \<not> same_key x g \<longrightarrow> (x \<in> set (files w1) \<longleftrightarrow> x \<in> set (files w))"
    and "gc_deletes env cid auth sel cutoff g \<Longrightarrow> \<forall>x \<in> set (files w1). \<not> same_key x g"
    and "\<not> gc_deletes env cid auth sel cutoff g \<Longrightarrow>
           \<forall>x \<in> set (files w). same_key x g \<longrightarrow> x\<lparr>lastSeenTs := Some (now env)\<rparr> \<in> set (files w1)"
proof -
  have rid': "\<forall>d. getGoogleDriveObject env auth (driveFileId g) = Inr (Some d) \<longrightarrow> o_id d = driveFileId g"
    using rid by blast
  note F = gcOne_files [OF ok cidf rid']
  show "\<forall>x. \<not> same_key x g \<longrightarrow> (x \<in> set (files w1) \<longleftrightarrow> x \<in> set (files w))"
  proof (intro allI impI)
    fix x assume nk: "\<not> same_key x g"
    show "x \<in> set (files w1) \<longleftrightarrow> x \<in> set (files w)"
    proof (cases "gc_deletes env cid auth sel cutoff g")
      case True
      then show ?thesis using F nk by simp
    next
      case False
      let ?u = "\<lambda>x. if same_key x g then x\<lparr>lastSeenTs := Some (now env)\<rparr> else x"
      have f1: "files w1 = map ?u (files w)" using F False by simp
      show ?thesis
      proof
        assume "x \<in> set (files w1)"
        then obtain y where y: "y \<in> set (files w)" "x = ?u y" using f1 by auto
        then have "\<not> same_key y g" using nk same_key_refresh by (cases "same_key y g") auto
        then show "x \<in> set (files w)" using y by simp
      next
        assume "x \<in> set (files w)"
        then have "?u x \<in> set (map ?u (files w))" by (simp only: set_map) (rule imageI)
        then show "x \<in> set (files w1)" using f1 nk by simp
      qed
    qed
  qed
  show "\<forall>x \<in> set (files w1). \<not> same_key x g" if "gc_deletes env cid auth sel cutoff g"
    using F that by simp
  show "\<forall>x \<in> set (files w). same_key x g \<longrightarrow> x\<lparr>lastSeenTs := Some (now env)\<rparr> \<in> set (files w1)"
    if nd: "\<not> gc_deletes env cid auth sel cutoff g"
  proof (intro ballI impI)
    let ?u = "\<lambda>x. if same_key x g then x\<lparr>lastSeenTs := Some (now env)\<rparr> else x"
    fix x assume x: "x \<in> set (files w)" "same_key x g"
    have f1: "files w1 = map ?u (files w)" using F nd by simp
    have "?u x \<in> set (map ?u (files w))" using x(1) by (simp only: set_map) (rule imageI)
    then show "x\<lparr>lastSeenTs := Some (now env)\<rparr> \<in> set (files w1)" using f1 x(2) by simp
  qed
qed

lemma forEach_gcOne:
  assumes "forEach (gcOne env cid auth sel cutoff) fs w = (Inr (), w')"
    and "\<forall>f \<in> set fs. connectorId f = cid"
    and rid: "\<forall>fid d. getGoogleDriveObject env auth fid = Inr (Some d) \<longrightarrow> o_id d = fid"
    and "distinct (map (\<lambda>f. (connectorId f, driveFileId f)) fs)"
  shows "(\<forall>x. (\<forall>f \<in> set fs. \<not> same_key x f) \<longrightarrow> (x \<in> set (files w') \<longleftrightarrow> x \<in> set (files w)))
       \<and> (\<forall>f \<in> set fs. gc_deletes env cid auth sel cutoff f \<longrightarrow> (\<forall>x \<in> set (files w'). \<not> same_key x f))
       \<and> (\<forall>f \<in> set fs. \<not> gc_deletes env cid auth sel cutoff f \<longrightarrow>
             (\<forall>x \<in> set (files w). same_key x f \<longrightarrow> x\<lparr>lastSeenTs := Some (now env)\<rparr> \<in> set (files w')))"
  using assms(1,2,4)
proof (induction fs arbitrary: w)
  case Nil
  then show ?case by (simp add: ret_def)
next
  case (Cons g gs)
  from Cons.prems(1) obtain w1 where
    g: "gcOne env cid auth sel cutoff g w = (Inr (), w1)" and
    rest: "forEach (gcOne env cid auth sel cutoff) gs w1 = (Inr (), w')"
    by (rule forEach_Cons_ok)
  have cg: "connectorId g = cid" and cgs: "\<forall>f \<in> set gs. connectorId f = cid"
    using Cons.prems(2) by simp_all
  have dgs: "distinct (map (\<lambda>f. (connectorId f, driveFileId f)) gs)"
    using Cons.prems(3) by simp
  have fresh: "\<forall>f \<in> set gs. \<not> same_key f g"
  proof
    fix f assume "f \<in> set gs"
    then have "(connectorId f, driveFileId f) \<in> (\<lambda>f. (connectorId f, driveFileId f)) ` set gs"
      by (rule imageI)
    moreover have "(connectorId g, driveFileId g) \<notin> (\<lambda>f. (connectorId f, driveFileId f)) ` set gs"
      using Cons.prems(3) by simp
    ultimately show "\<not> same_key f g" by (auto simp: same_key_keys)
  qed
  note S = gcOne_step [OF g cg rid]
  note IH = Cons.IH [OF rest cgs dgs]
  have other: "\<forall>f \<in> set gs. \<not> same_key x f" if "same_key x g" for x
    using that fresh by (auto simp: same_key_keys)
  have i: "\<forall>x. (\<forall>f \<in> set (g # gs). \<not> same_key x f) \<longrightarrow> (x \<in> set (files w') \<longleftrightarrow> x \<in> set (files w))"
    using S(1) conjunct1 [OF IH] by simp
  have ii: "\<forall>f \<in> set (g # gs). gc_deletes env cid auth sel cutoff f \<longrightarrow> (\<forall>x \<in> set (files w'). \<not> same_key x f)"
  proof (intro ballI impI)
    fix f x assume f: "f \<in> set (g # gs)" and d: "gc_deletes env cid auth sel cutoff f"
      and x: "x \<in> set (files w')"
    show "\<not> same_key x f"
    proof (cases "f = g")
      case True
      show ?thesis
      proof
        assume sk: "same_key x f"
        then have "x \<in> set (files w1)"
          using conjunct1 [OF IH] other [of x] x True by blast
        then show False using S(2) d True sk by blast
      qed
    next
      case False
      then have "f \<in> set gs" using f by simp
      then show ?thesis using conjunct1 [OF conjunct2 [OF IH]] d x by blast
    qed
  qed
  have iii: "\<forall>f \<in> set (g # gs). \<not> gc_deletes env cid auth sel cutoff f \<longrightarrow>
             (\<forall>x \<in> set (files w). same_key x f \<longrightarrow> x\<lparr>lastSeenTs := Some (now env)\<rparr> \<in> set (files w'))"
  proof (intro ballI impI)
    fix f x assume f: "f \<in> set (g # gs)" and d: "\<not> gc_deletes env cid auth sel cutoff f"
      and x: "x \<in> set (files w)" and sk: "same_key x f"
    let ?y = "x\<lparr>lastSeenTs := Some (now env)\<rparr>"
    show "?y \<in> set (files w')"
    proof (cases "f = g")
      case True
      then have y1: "?y \<in> set (files w1)" using S(3) d x sk by blast
      have "same_key ?y g" using sk True by (simp add: same_key_refresh)
      then have "\<forall>f \<in> set gs. \<not> same_key ?y f" by (rule other)
      then show ?thesis using conjunct1 [OF IH] y1 by blast
    next
      case False
      then have fg: "f \<in> set gs" using f by simp
      then have "\<not> same_key x g" using fresh sk by (auto simp: same_key_keys)
      then have "x \<in> set (files w1)" using S(1) x by blast
      then show ?thesis using conjunct2 [OF conjunct2 [OF IH]] fg d sk by blast
    qed
  qed
  show ?case by (intro conjI) (rule i ii iii)+
qed


lemma garbageCollector_loop:
  assumes run: "garbageCollector env cid cutoff w = (Inr n, w')"
    and conn: "find (\<lambda>c. c_id c = cid) (connectors w) = Some c"
    and auth: "getAuthObject env (connectionId c) = Inr auth"
  shows "forEach (gcOne env cid auth (map snd (filter (\<lambda>x. fst x = cid) (folders w))) cutoff)
           (gc_candidates cid cutoff w) w = (Inr (), w')"
  using run conn auth
  by (auto simp: garbageCollector_def fetchConnectorOrThrow_Some getFoldersToSync_def act_defs
        split: prod.splits sum.splits)

lemma gc_candidates_facts:
  "\<forall>f \<in> set (gc_candidates cid cutoff w).
      f \<in> set (files w) \<and> connectorId f = cid \<and>
      (lastSeenTs f = None \<or> (\<exists>t. lastSeenTs f = Some t \<and> t < cutoff))"
  by (auto simp: gc_candidates_def stale_def dest!: in_set_takeD split: option.splits)

lemma gc_candidates_distinct:
  assumes "distinct (map (\<lambda>f. (connectorId f, driveFileId f)) (files w))"
  shows "distinct (map (\<lambda>f. (connectorId f, driveFileId f)) (gc_candidates cid cutoff w))"
  using assms
  by (simp add: gc_candidates_def take_map [symmetric] distinct_map_filter)

text \<open>
  Claim C4. Let a call \<open>garbageCollector(connectorId, cutoffTs)\<close> return, on a mirror
  table with unique \<open>(connectorId, driveFileId)\<close> and a remote source that answers a
  lookup with the object of the requested id. The candidates are rows of the connector
  whose \<open>lastSeenTs\<close> is unset or strictly before the cutoff, at most 100 of them; every
  row that is not a candidate is still in the table afterwards. A candidate absent
  remotely has no row left; a candidate present remotely but trashed or outside the
  selected folders has no row left; a candidate present remotely, in scope and not
  trashed is still in the table, with \<open>lastSeenTs\<close> set to now.
\<close>

theorem garbageCollector_reconciles:
  assumes run: "garbageCollector env cid cutoff w = (Inr n, w')"
    and conn: "find (\<lambda>c. c_id c = cid) (connectors w) = Some c"
    and auth: "getAuthObject env (connectionId c) = Inr auth"
    and uniq: "distinct (map (\<lambda>f. (connectorId f, driveFileId f)) (files w))"
    and rid: "\<forall>fid d. getGoogleDriveObject env auth fid = Inr (Some d) \<longrightarrow> o_id d = fid"
  shows "(\<forall>f \<in> set (gc_candidates cid cutoff w).
            f \<in> set (files w) \<and> connectorId f = cid \<and>
            (lastSeenTs f = None \<or> (\<exists>t. lastSeenTs f = Some t \<and> t < cutoff)))
       \<and> length (gc_candidates cid cutoff w) \<le> 100
       \<and> (\<forall>f \<in> set (files w). f \<notin> set (gc_candidates cid cutoff w) \<longrightarrow> f \<in> set (files w'))
       \<and> (\<forall>f \<in> set (gc_candidates cid cutoff w).
            (getGoogleDriveObject env auth (driveFileId f) = Inr None \<longrightarrow>
               (\<forall>x \<in> set (files w'). \<not> same_key x f))
          \<and> (\<forall>d ps. getGoogleDriveObject env auth (driveFileId f) = Inr (Some d) \<and>
                     getFileParentsMemoized env cid auth d cutoff = Inr ps \<longrightarrow>
                (if o_trashed d \<or>
                    \<not> (\<exists>p \<in> set ps. o_id p \<in> set (map snd (filter (\<lambda>x. fst x = cid) (folders w))))
                 then \<forall>x \<in> set (files w'). \<not> same_key x f
                 else f\<lparr>lastSeenTs := Some (now env)\<rparr> \<in> set (files w'))))"
proof -
  let ?sel = "map snd (filter (\<lambda>x. fst x = cid) (folders w))"
  let ?cands = "gc_candidates cid cutoff w"
  let ?k = "\<lambda>f. (connectorId f, driveFileId f)"
  note loop = garbageCollector_loop [OF run conn auth]
  note facts = gc_candidates_facts [of cid cutoff w]
  have cids: "\<forall>f \<in> set ?cands. connectorId f = cid" using facts by blast
  note L = forEach_gcOne [OF loop cids rid gc_candidates_distinct [OF uniq]]
  have inj: "inj_on ?k (set (files w))" using uniq by (simp add: distinct_map)
  have a: "length ?cands \<le> 100" by (simp add: gc_candidates_def)
  have b: "\<forall>f \<in> set (files w). f \<notin> set ?cands \<longrightarrow> f \<in> set (files w')"
  proof (intro ballI impI)
    fix f assume f: "f \<in> set (files w)" "f \<notin> set ?cands"
    have "\<forall>g \<in> set ?cands. \<not> same_key f g"
    proof
      fix g assume g: "g \<in> set ?cands"
      then have "g \<in> set (files w)" using facts by blast
      moreover have "f \<noteq> g" using f(2) g by blast
      ultimately show "\<not> same_key f g"
        using inj f(1) by (auto simp: same_key_keys inj_on_def)
    qed
    then show "f \<in> set (files w')" using conjunct1 [OF L] f(1) by blast
  qed
  have c: "\<forall>f \<in> set ?cands.
            (getGoogleDriveObject env auth (driveFileId f) = Inr None \<longrightarrow>
               (\<forall>x \<in> set (files w'). \<not> same_key x f))
          \<and> (\<forall>d ps. getGoogleDriveObject env auth (driveFileId f) = Inr (Some d) \<and>
                     getFileParentsMemoized env cid auth d cutoff = Inr ps \<longrightarrow>
                (if o_trashed d \<or> \<not> (\<exists>p \<in> set ps. o_id p \<in> set ?sel)
                 then \<forall>x \<in> set (files w'). \<not> same_key x f
                 else f\<lparr>lastSeenTs := Some (now env)\<rparr> \<in> set (files w')))"
  proof (rule ballI)
    fix f assume f: "f \<in> set ?cands"
    have fw: "f \<in> set (files w)" using facts f by blast
    have p1: "getGoogleDriveObject env auth (driveFileId f) = Inr None \<longrightarrow>
               (\<forall>x \<in> set (files w'). \<not> same_key x f)"
    proof (rule impI)
      assume "getGoogleDriveObject env auth (driveFileId f) = Inr None"
      then have "gc_deletes env cid auth ?sel cutoff f" by (simp add: gc_deletes_def)
      then show "\<forall>x \<in> set (files w'). \<not> same_key x f"
        using conjunct1 [OF conjunct2 [OF L]] f by blast
    qed
    have p2: "\<forall>d ps. getGoogleDriveObject env auth (driveFileId f) = Inr (Some d) \<and>
                     getFileParentsMemoized env cid auth d cutoff = Inr ps \<longrightarrow>
                (if o_trashed d \<or> \<not> (\<exists>p \<in> set ps. o_id p \<in> set ?sel)
                 then \<forall>x \<in> set (files w'). \<not> same_key x f
                 else f\<lparr>lastSeenTs := Some (now env)\<rparr> \<in> set (files w'))"
    proof (intro allI, rule impI)
      fix d ps
      assume r: "getGoogleDriveObject env auth (driveFileId f) = Inr (Some d) \<and>
                 getFileParentsMemoized env cid auth d cutoff = Inr ps"
      show "if o_trashed d \<or> \<not> (\<exists>p \<in> set ps. o_id p \<in> set ?sel)
            then \<forall>x \<in> set (files w'). \<not> same_key x f
            else f\<lparr>lastSeenTs := Some (now env)\<rparr> \<in> set (files w')"
      proof (cases "o_trashed d \<or> \<not> (\<exists>p \<in> set ps. o_id p \<in> set ?sel)")
        case True
        then have "gc_deletes env cid auth ?sel cutoff f" using r by (auto simp: gc_deletes_def)
        then have "\<forall>x \<in> set (files w'). \<not> same_key x f"
          using conjunct1 [OF conjunct2 [OF L]] f by blast
        then show ?thesis using True by simp
      next
        case False
        then have "\<not> gc_deletes env cid auth ?sel cutoff f" using r by (auto simp: gc_deletes_def)
        moreover have "same_key f f" by (simp add: same_key_def)
        ultimately have "f\<lparr>lastSeenTs := Some (now env)\<rparr> \<in> set (files w')"
          using conjunct2 [OF conjunct2 [OF L]] f fw by blast
        then show ?thesis using False by simp
      qed
    qed
    show "(getGoogleDriveObject env auth (driveFileId f) = Inr None \<longrightarrow>
               (\<forall>x \<in> set (files w'). \<not> same_key x f))
          \<and> (\<forall>d ps. getGoogleDriveObject env auth (driveFileId f) = Inr (Some d) \<and>
                     getFileParentsMemoized env cid auth d cutoff = Inr ps \<longrightarrow>
                (if o_trashed d \<or> \<not> (\<exists>p \<in> set ps. o_id p \<in> set ?sel)
                 then \<forall>x \<in> set (files w'). \<not> same_key x f
                 else f\<lparr>lastSeenTs := Some (now env)\<rparr> \<in> set (files w')))"
      using p1 p2 by (rule conjI)
  qed
  show ?thesis by (intro conjI) (rule facts a b c)+
qed


lemma gc_worldGc_run:
  "fst (garbageCollector envGc 1 100 worldGc) = Inr 3"
  by (simp add: gc_defs store_defs act_defs fixture_defs gc_scenario_defs FOLDER_MIME_def)

theorem garbageCollector_reconciles_witness:
  "rowDoc1\<lparr>lastSeenTs := Some 1000\<rparr> \<in> set (files (snd (garbageCollector envGc 1 100 worldGc)))
   \<and> rowF1 \<in> set (files (snd (garbageCollector envGc 1 100 worldGc)))
   \<and> rowPdf1 \<notin> set (files (snd (garbageCollector envGc 1 100 worldGc)))
   \<and> rowDoc2 \<notin> set (files (snd (garbageCollector envGc 1 100 worldGc)))
   \<and> gc_candidates 1 100 worldGc = [rowDoc1, rowPdf1, rowDoc2]"
proof -
  let ?w' = "snd (garbageCollector envGc 1 100 worldGc)"
  have run: "garbageCollector envGc 1 100 worldGc = (Inr 3, ?w')"
    using gc_worldGc_run by (cases "garbageCollector envGc 1 100 worldGc") simp
  have conn: "find (\<lambda>c. c_id c = 1) (connectors worldGc) = Some conn1"
    by (simp add: fixture_defs gc_scenario_defs)
  have auth: "getAuthObject envGc (connectionId conn1) = Inr ''credentials''"
    by (simp add: fixture_defs gc_scenario_defs)
  have uniq: "distinct (map (\<lambda>f. (connectorId f, driveFileId f)) (files worldGc))"
    by (simp add: fixture_defs gc_scenario_defs)
  have rid: "\<forall>fid d. getGoogleDriveObject envGc ''credentials'' fid = Inr (Some d) \<longrightarrow> o_id d = fid"
    by (auto simp: fixture_defs gc_scenario_defs split: if_splits)
  note T = garbageCollector_reconciles [OF run conn auth uniq rid]
  have cands: "gc_candidates 1 100 worldGc = [rowDoc1, rowPdf1, rowDoc2]"
    by (simp add: gc_candidates_def stale_def fixture_defs gc_scenario_defs)
  have mem: "rowDoc1 \<in> set (gc_candidates 1 100 worldGc)" "rowPdf1 \<in> set (gc_candidates 1 100 worldGc)"
    "rowDoc2 \<in> set (gc_candidates 1 100 worldGc)"
    "rowF1 \<in> set (files worldGc)" "rowF1 \<notin> set (gc_candidates 1 100 worldGc)"
    unfolding cands by (simp_all add: fixture_defs gc_scenario_defs)
  note per = conjunct2 [OF conjunct2 [OF conjunct2 [OF T]]]
  have r1: "getGoogleDriveObject envGc ''credentials'' (driveFileId rowDoc1) = Inr (Some remoteDoc1) \<and>
            getFileParentsMemoized envGc 1 ''credentials'' remoteDoc1 100 = Inr [remoteDoc1, folderF1]"
    by (simp add: fixture_defs gc_scenario_defs)
  have s1: "\<not> (o_trashed remoteDoc1 \<or>
      \<not> (\<exists>p \<in> set [remoteDoc1, folderF1]. o_id p \<in> set (map snd (filter (\<lambda>x. fst x = 1) (folders worldGc)))))"
    by (simp add: fixture_defs gc_scenario_defs)
  have r2: "getGoogleDriveObject envGc ''credentials'' (driveFileId rowPdf1) = Inr None"
    by (simp add: fixture_defs gc_scenario_defs)
  have r3: "getGoogleDriveObject envGc ''credentials'' (driveFileId rowDoc2) = Inr (Some remoteDoc2) \<and>
            getFileParentsMemoized envGc 1 ''credentials'' remoteDoc2 100 = Inr [remoteDoc2]"
    by (simp add: fixture_defs gc_scenario_defs)
  have s3: "o_trashed remoteDoc2 \<or>
      \<not> (\<exists>p \<in> set [remoteDoc2]. o_id p \<in> set (map snd (filter (\<lambda>x. fst x = 1) (folders worldGc))))"
    by (simp add: fixture_defs gc_scenario_defs)
  have n: "now envGc = 1000" by (simp add: fixture_defs gc_scenario_defs)
  have a: "rowDoc1\<lparr>lastSeenTs := Some 1000\<rparr> \<in> set (files ?w')"
    using conjunct2 [OF bspec [OF per mem(1)], rule_format, OF r1]
    by (simp only: s1 if_False n)
  have b: "rowF1 \<in> set (files ?w')"
    using conjunct1 [OF conjunct2 [OF conjunct2 [OF T]]] mem(4,5) by blast
  have "\<forall>x \<in> set (files ?w'). \<not> same_key x rowPdf1"
    using conjunct1 [OF bspec [OF per mem(2)]] r2 by blast
  then have c: "rowPdf1 \<notin> set (files ?w')" by (auto simp: same_key_def)
  have "\<forall>x \<in> set (files ?w'). \<not> same_key x rowDoc2"
    using conjunct2 [OF bspec [OF per mem(3)], rule_format, OF r3]
    by (simp only: s3 if_True)
  then have d: "rowDoc2 \<notin> set (files ?w')" by (auto simp: same_key_def)
  show ?thesis by (intro conjI) (rule a b c d cands)+
qed

end
